theory Spec2Isabelle
  imports Main "HOL-Library.Sublist"
begin

section \<open>PyCRS containers: the CRS tree and its three renders\<close>

text \<open>
  A shallow embedding of \<^verbatim>\<open>pycrs/elements/containers.py\<close>. Each container class is a
  record of the attributes its constructor stores, each \<^verbatim>\<open>__init__\<close> is a function that
  builds the record, and each \<^verbatim>\<open>to_proj4\<close>, \<^verbatim>\<open>to_ogc_wkt\<close> and \<^verbatim>\<open>to_esri_wkt\<close> method is
  a function from the record to the string the method returns.
\<close>

subsection \<open>Python values and string helpers\<close>

text \<open>
  The numbers of an ellipsoid are only ever compared with \<^verbatim>\<open>None\<close> and formatted with
  \<^verbatim>\<open>%s\<close>, so a number is held as the text that \<^verbatim>\<open>str()\<close> gives for it. An attribute that
  may hold \<^verbatim>\<open>None\<close> is an \<open>option\<close>.
\<close>

type_synonym pynum = string

text \<open>\<^verbatim>\<open>"%s" % v\<close> for a value that is a string (or a number, held as its text) or \<^verbatim>\<open>None\<close>.\<close>

definition py_str :: "string option \<Rightarrow> string" where
  "py_str v = (case v of None \<Rightarrow> ''None'' | Some s \<Rightarrow> s)"

text \<open>Truth value of a string-or-\<^verbatim>\<open>None\<close> attribute: \<^verbatim>\<open>None\<close> and \<^verbatim>\<open>""\<close> are false.\<close>

definition py_truthy :: "string option \<Rightarrow> bool" where
  "py_truthy v = (case v of None \<Rightarrow> False | Some s \<Rightarrow> s \<noteq> [])"

text \<open>\<^verbatim>\<open>sep.join(xs)\<close>.\<close>

fun join :: "string \<Rightarrow> string list \<Rightarrow> string" where
  "join sep [] = []"
| "join sep [x] = x"
| "join sep (x # y # ys) = x @ sep @ join sep (y # ys)"

subsection \<open>The catalog modules and the parameter objects\<close>

text \<open>
  The modules \<^verbatim>\<open>directions\<close>, \<^verbatim>\<open>datums\<close>, \<^verbatim>\<open>ellipsoids\<close>, \<^verbatim>\<open>projections\<close> and
  \<^verbatim>\<open>parameters\<close> are imported by the containers, which read from their objects only
  the attributes below. A catalog object is the record of those attributes; the flag
  \<open>unknown\<close> says whether the object is an instance of its module's \<^verbatim>\<open>Unknown\<close> class.
\<close>

record direction =
  dir_proj4 :: string
  dir_ogc_wkt :: string
  dir_esri_wkt :: string

text \<open>The two classes of \<^verbatim>\<open>directions\<close> that the constructors instantiate for the default axes.\<close>

record directions =
  East :: direction
  North :: direction

record datum_name =
  dn_unknown :: bool
  dn_proj4 :: "string option"
  dn_ogc_wkt :: string
  dn_esri_wkt :: string

record ellipsoid_name =
  en_unknown :: bool
  en_proj4 :: "string option"
  en_ogc_wkt :: string
  en_esri_wkt :: string
  en_semimaj_ax :: "pynum option"
  en_inv_flat :: "pynum option"

record projection_name =
  pn_proj4 :: "string option"
  pn_ogc_wkt :: string
  pn_esri_wkt :: string

text \<open>
  An object of \<^verbatim>\<open>parameters\<close> (datum shift, prime meridian, angular unit, unit, projection
  parameter) is used only through its three render methods; it is held as the strings
  they return.
\<close>

record parameter =
  par_to_proj4 :: string
  par_to_ogc_wkt :: string
  par_to_esri_wkt :: string

subsection \<open>Ellipsoid\<close>

record Ellipsoid =
  ell_name :: ellipsoid_name
  semimaj_ax :: "pynum option"
  inv_flat :: "pynum option"

definition Ellipsoid_init :: "ellipsoid_name \<Rightarrow> pynum option \<Rightarrow> pynum option \<Rightarrow> Ellipsoid" where
  "Ellipsoid_init name a f =
     (let a' = (if a = None then en_semimaj_ax name else a);
          f' = (if f = None then en_inv_flat name else f)
      in \<lparr>ell_name = name, semimaj_ax = a', inv_flat = f'\<rparr>)"

definition Ellipsoid_to_proj4 :: "Ellipsoid \<Rightarrow> string" where
  "Ellipsoid_to_proj4 e =
     (if en_unknown (ell_name e) then
        ''+a='' @ py_str (semimaj_ax e) @ '' +f='' @ py_str (inv_flat e)
      else if \<not> py_truthy (en_proj4 (ell_name e)) then
        ''+a='' @ py_str (semimaj_ax e) @ '' +f='' @ py_str (inv_flat e)
      else
        ''+ellps='' @ py_str (en_proj4 (ell_name e))
          @ '' +a='' @ py_str (semimaj_ax e) @ '' +f='' @ py_str (inv_flat e))"

definition Ellipsoid_to_ogc_wkt :: "Ellipsoid \<Rightarrow> string" where
  \<open>Ellipsoid_to_ogc_wkt e =
     ''SPHEROID["'' @ en_ogc_wkt (ell_name e) @ ''", '' @ py_str (semimaj_ax e)
       @ '', '' @ py_str (inv_flat e) @ '']''\<close>

definition Ellipsoid_to_esri_wkt :: "Ellipsoid \<Rightarrow> string" where
  \<open>Ellipsoid_to_esri_wkt e =
     ''SPHEROID["'' @ en_esri_wkt (ell_name e) @ ''", '' @ py_str (semimaj_ax e)
       @ '', '' @ py_str (inv_flat e) @ '']''\<close>

subsection \<open>Datum\<close>

text \<open>
  \<^verbatim>\<open>if self.datumshift:\<close> tests the truth value of the attribute: \<^verbatim>\<open>None\<close> is false and a
  datum shift object is true.
\<close>

record Datum =
  dat_name :: datum_name
  ellips :: Ellipsoid
  datumshift :: "parameter option"

definition Datum_init :: "datum_name \<Rightarrow> Ellipsoid \<Rightarrow> parameter option \<Rightarrow> Datum" where
  "Datum_init name ellipsoid shift = \<lparr>dat_name = name, ellips = ellipsoid, datumshift = shift\<rparr>"

definition Datum_to_proj4 :: "Datum \<Rightarrow> string" where
  "Datum_to_proj4 d =
     (case datumshift d of
        Some s \<Rightarrow> Ellipsoid_to_proj4 (ellips d) @ '' '' @ par_to_proj4 s
      | None \<Rightarrow>
          if dn_unknown (dat_name d) then Ellipsoid_to_proj4 (ellips d)
          else if \<not> py_truthy (dn_proj4 (dat_name d)) then Ellipsoid_to_proj4 (ellips d)
          else ''+datum='' @ py_str (dn_proj4 (dat_name d)) @ '' '' @ Ellipsoid_to_proj4 (ellips d))"

definition Datum_to_ogc_wkt :: "Datum \<Rightarrow> string" where
  \<open>Datum_to_ogc_wkt d =
     (case datumshift d of
        Some s \<Rightarrow> ''DATUM["'' @ dn_ogc_wkt (dat_name d) @ ''", '' @ Ellipsoid_to_ogc_wkt (ellips d)
                    @ '', '' @ par_to_ogc_wkt s @ '']''
      | None \<Rightarrow> ''DATUM["'' @ dn_ogc_wkt (dat_name d) @ ''", '' @ Ellipsoid_to_ogc_wkt (ellips d)
                    @ '']'')\<close>

definition Datum_to_esri_wkt :: "Datum \<Rightarrow> string" where
  \<open>Datum_to_esri_wkt d =
     (case datumshift d of
        Some s \<Rightarrow> ''DATUM["'' @ dn_esri_wkt (dat_name d) @ ''", '' @ Ellipsoid_to_esri_wkt (ellips d)
                    @ '', '' @ par_to_esri_wkt s @ '']''
      | None \<Rightarrow> ''DATUM["'' @ dn_esri_wkt (dat_name d) @ ''", '' @ Ellipsoid_to_esri_wkt (ellips d)
                    @ '']'')\<close>

subsection \<open>Projection\<close>

record Projection =
  proj_value :: projection_name

definition Projection_init :: "projection_name \<Rightarrow> Projection" where
  "Projection_init v = \<lparr>proj_value = v\<rparr>"

definition Projection_to_proj4 :: "Projection \<Rightarrow> string" where
  "Projection_to_proj4 p = ''+proj='' @ py_str (pn_proj4 (proj_value p))"

definition Projection_to_ogc_wkt :: "Projection \<Rightarrow> string" where
  \<open>Projection_to_ogc_wkt p = ''PROJECTION["'' @ pn_ogc_wkt (proj_value p) @ ''"]''\<close>

definition Projection_to_esri_wkt :: "Projection \<Rightarrow> string" where
  \<open>Projection_to_esri_wkt p = ''PROJECTION["'' @ pn_esri_wkt (proj_value p) @ ''"]''\<close>

subsection \<open>GeogCS\<close>

record GeogCS =
  geog_name :: string
  datum :: Datum
  prime_mer :: parameter
  angunit :: parameter
  geog_twin_ax :: "direction \<times> direction"

definition GeogCS_init ::
  "directions \<Rightarrow> string \<Rightarrow> Datum \<Rightarrow> parameter \<Rightarrow> parameter \<Rightarrow> (direction \<times> direction) option \<Rightarrow> GeogCS" where
  "GeogCS_init dirs name dat pm au twin_ax =
     \<lparr>geog_name = name, datum = dat, prime_mer = pm, angunit = au,
      geog_twin_ax = (case twin_ax of None \<Rightarrow> (East dirs, North dirs) | Some t \<Rightarrow> t)\<rparr>"

definition GeogCS_to_proj4 :: "GeogCS \<Rightarrow> string" where
  "GeogCS_to_proj4 g =
     Datum_to_proj4 (datum g) @ '' '' @ par_to_proj4 (prime_mer g) @ '' '' @ par_to_proj4 (angunit g)"

definition GeogCS_to_ogc_wkt :: "GeogCS \<Rightarrow> string" where
  \<open>GeogCS_to_ogc_wkt g =
     ''GEOGCS["'' @ geog_name g @ ''", '' @ Datum_to_ogc_wkt (datum g)
       @ '', '' @ par_to_ogc_wkt (prime_mer g) @ '', '' @ par_to_ogc_wkt (angunit g)
       @ '', AXIS["Lon", '' @ dir_ogc_wkt (fst (geog_twin_ax g))
       @ ''], AXIS["Lat", '' @ dir_ogc_wkt (snd (geog_twin_ax g)) @ '']]''\<close>

definition GeogCS_to_esri_wkt :: "GeogCS \<Rightarrow> string" where
  \<open>GeogCS_to_esri_wkt g =
     ''GEOGCS["'' @ geog_name g @ ''", '' @ Datum_to_esri_wkt (datum g)
       @ '', '' @ par_to_esri_wkt (prime_mer g) @ '', '' @ par_to_esri_wkt (angunit g)
       @ '', AXIS["Lon", '' @ dir_esri_wkt (fst (geog_twin_ax g))
       @ ''], AXIS["Lat", '' @ dir_esri_wkt (snd (geog_twin_ax g)) @ '']]''\<close>

subsection \<open>ProjCS\<close>

record ProjCS =
  projcs_name :: string
  geogcs :: GeogCS
  proj :: Projection
  params :: "parameter list"
  unit :: parameter
  projcs_twin_ax :: "direction \<times> direction"

definition ProjCS_init ::
  "directions \<Rightarrow> string \<Rightarrow> GeogCS \<Rightarrow> Projection \<Rightarrow> parameter list \<Rightarrow> parameter
     \<Rightarrow> (direction \<times> direction) option \<Rightarrow> ProjCS" where
  "ProjCS_init dirs name g p ps u twin_ax =
     \<lparr>projcs_name = name, geogcs = g, proj = p, params = ps, unit = u,
      projcs_twin_ax = (case twin_ax of None \<Rightarrow> (East dirs, North dirs) | Some t \<Rightarrow> t)\<rparr>"

definition ProjCS_to_proj4 :: "ProjCS \<Rightarrow> string" where
  "ProjCS_to_proj4 c =
     (let string = Projection_to_proj4 (proj c) @ '' '' @ GeogCS_to_proj4 (geogcs c) @ '' '';
          string = string @ join '' '' (map par_to_proj4 (params c));
          string = string @ '' '' @ par_to_proj4 (unit c);
          string = string @ '' +axis='' @ dir_proj4 (fst (projcs_twin_ax c))
                     @ dir_proj4 (snd (projcs_twin_ax c)) @ ''u''
      in string)"

definition ProjCS_to_ogc_wkt :: "ProjCS \<Rightarrow> string" where
  \<open>ProjCS_to_ogc_wkt c =
     (let string = ''PROJCS["'' @ projcs_name c @ ''", '' @ GeogCS_to_ogc_wkt (geogcs c)
                     @ '', '' @ Projection_to_ogc_wkt (proj c) @ '', '';
          string = string @ join '', '' (map par_to_ogc_wkt (params c));
          string = string @ '', '' @ par_to_ogc_wkt (unit c);
          string = string @ '', AXIS["X", '' @ dir_ogc_wkt (fst (projcs_twin_ax c))
                     @ ''], AXIS["Y", '' @ dir_ogc_wkt (snd (projcs_twin_ax c)) @ '']]''
      in string)\<close>

definition ProjCS_to_esri_wkt :: "ProjCS \<Rightarrow> string" where
  \<open>ProjCS_to_esri_wkt c =
     (let string = ''PROJCS["'' @ projcs_name c @ ''", '' @ GeogCS_to_esri_wkt (geogcs c)
                     @ '', '' @ Projection_to_esri_wkt (proj c) @ '', '';
          string = string @ join '', '' (map par_to_esri_wkt (params c));
          string = string @ '', '' @ par_to_esri_wkt (unit c);
          string = string @ '', AXIS["X", '' @ dir_esri_wkt (fst (projcs_twin_ax c))
                     @ ''], AXIS["Y", '' @ dir_esri_wkt (snd (projcs_twin_ax c)) @ '']]''
      in string)\<close>

subsection \<open>CRS\<close>

text \<open>
  \<^verbatim>\<open>CRS.__init__\<close> stores whatever it is given. \<^verbatim>\<open>to_proj4\<close> asks with \<^verbatim>\<open>isinstance\<close>
  what the stored value is, so the value is a \<open>ProjCS\<close>, a \<open>GeogCS\<close>, or any other
  Python object. Of such an object the two WKT methods use only
  \<^verbatim>\<open>"%s" % obj.to_ogc_wkt()\<close> and \<^verbatim>\<open>"%s" % obj.to_esri_wkt()\<close>: each either raises
  (\<^verbatim>\<open>AttributeError\<close> when the object has no such method) or gives a text.
\<close>

datatype py_error = AttributeError | TypeError | OtherError string

record foreign =
  frn_to_ogc_wkt :: "py_error + string"
  frn_to_esri_wkt :: "py_error + string"

datatype root = TopProjCS ProjCS | TopGeogCS GeogCS | TopOther foreign

record CRS =
  toplevel :: root

definition CRS_init :: "root \<Rightarrow> CRS" where
  "CRS_init t = \<lparr>toplevel = t\<rparr>"

text \<open>
  \<^verbatim>\<open>to_proj4\<close> has an \<^verbatim>\<open>if\<close> and an \<^verbatim>\<open>elif\<close> and no \<^verbatim>\<open>else\<close>: when neither test holds
  the method ends without a \<^verbatim>\<open>return\<close>, which in Python returns \<^verbatim>\<open>None\<close>.
\<close>

definition CRS_to_proj4 :: "CRS \<Rightarrow> string option" where
  "CRS_to_proj4 c =
     (case toplevel c of
        TopProjCS p \<Rightarrow> Some (ProjCS_to_proj4 p @ '' +no_defs'')
      | TopGeogCS g \<Rightarrow> Some (''+proj=longlat '' @ GeogCS_to_proj4 g @ '' +no_defs'')
      | TopOther x \<Rightarrow> None)"

definition CRS_to_ogc_wkt :: "CRS \<Rightarrow> py_error + string" where
  "CRS_to_ogc_wkt c =
     (case toplevel c of
        TopProjCS p \<Rightarrow> Inr (ProjCS_to_ogc_wkt p)
      | TopGeogCS g \<Rightarrow> Inr (GeogCS_to_ogc_wkt g)
      | TopOther x \<Rightarrow> frn_to_ogc_wkt x)"

definition CRS_to_esri_wkt :: "CRS \<Rightarrow> py_error + string" where
  "CRS_to_esri_wkt c =
     (case toplevel c of
        TopProjCS p \<Rightarrow> Inr (ProjCS_to_esri_wkt p)
      | TopGeogCS g \<Rightarrow> Inr (GeogCS_to_esri_wkt g)
      | TopOther x \<Rightarrow> frn_to_esri_wkt x)"

subsection \<open>Renders as calls\<close>

text \<open>
  The render methods of the \<^verbatim>\<open>parameters\<close> objects, and of a root that is neither a
  \<open>ProjCS\<close> nor a \<open>GeogCS\<close>, are code outside this file: a call of one may raise, and may
  read and change whatever state the program has. Here that state is a world \<open>'w\<close>, and a
  call takes the world it starts in and gives what the call does (an exception raised or
  a value returned) with the world it leaves. The catalog objects are still read through
  their attributes only, and \<open>Ellipsoid\<close> and \<open>Projection\<close> call nothing outside this file,
  so their renders stay the functions above.
\<close>

type_synonym ('w, 'a) call = "'w \<Rightarrow> (py_error + 'a) \<times> 'w"

text \<open>Returning a value, and running one call after another; an exception ends the run.\<close>

definition py_return :: "'a \<Rightarrow> ('w, 'a) call" where
  "py_return x = (\<lambda>w. (Inr x, w))"

definition py_then :: "('w, 'a) call \<Rightarrow> ('a \<Rightarrow> ('w, 'b) call) \<Rightarrow> ('w, 'b) call" where
  "py_then m f = (\<lambda>w. case m w of (Inl e, w') \<Rightarrow> (Inl e, w') | (Inr x, w') \<Rightarrow> f x w')"

text \<open>The calls of a generator expression over a list, made in the order of the list.\<close>

fun call_each :: "('w, 'a) call list \<Rightarrow> ('w, 'a list) call" where
  "call_each [] = py_return []"
| "call_each (m # ms) = py_then m (\<lambda>x. py_then (call_each ms) (\<lambda>xs. py_return (x # xs)))"

record 'w parameter_obj =
  obj_to_proj4 :: "('w, string) call"
  obj_to_ogc_wkt :: "('w, string) call"
  obj_to_esri_wkt :: "('w, string) call"

record 'w Datum_obj =
  dobj_name :: datum_name
  dobj_ellips :: Ellipsoid
  dobj_datumshift :: "'w parameter_obj option"

record 'w GeogCS_obj =
  gobj_name :: string
  gobj_datum :: "'w Datum_obj"
  gobj_prime_mer :: "'w parameter_obj"
  gobj_angunit :: "'w parameter_obj"
  gobj_twin_ax :: "direction \<times> direction"

record 'w ProjCS_obj =
  pobj_name :: string
  pobj_geogcs :: "'w GeogCS_obj"
  pobj_proj :: Projection
  pobj_params :: "'w parameter_obj list"
  pobj_unit :: "'w parameter_obj"
  pobj_twin_ax :: "direction \<times> direction"

record 'w foreign_obj =
  fobj_to_ogc_wkt :: "('w, string) call"
  fobj_to_esri_wkt :: "('w, string) call"

datatype 'w root_obj = ObjProjCS "'w ProjCS_obj" | ObjGeogCS "'w GeogCS_obj" | ObjOther "'w foreign_obj"

record 'w CRS_obj =
  obj_toplevel :: "'w root_obj"

text \<open>
  Each method below is the method of the same name above with the outside calls made in
  the order in which Python evaluates them: the operands of \<^verbatim>\<open>%\<close> from left to right, the
  statements of \<^verbatim>\<open>ProjCS\<close> from top to bottom.
\<close>

definition call_Datum_to_proj4 :: "'w Datum_obj \<Rightarrow> ('w, string) call" where
  "call_Datum_to_proj4 d =
     (case dobj_datumshift d of
        Some s \<Rightarrow>
          py_then (obj_to_proj4 s) (\<lambda>t.
          py_return (Ellipsoid_to_proj4 (dobj_ellips d) @ '' '' @ t))
      | None \<Rightarrow>
          py_return
            (if dn_unknown (dobj_name d) then Ellipsoid_to_proj4 (dobj_ellips d)
             else if \<not> py_truthy (dn_proj4 (dobj_name d)) then Ellipsoid_to_proj4 (dobj_ellips d)
             else ''+datum='' @ py_str (dn_proj4 (dobj_name d)) @ '' ''
                    @ Ellipsoid_to_proj4 (dobj_ellips d)))"

definition call_Datum_to_ogc_wkt :: "'w Datum_obj \<Rightarrow> ('w, string) call" where
  \<open>call_Datum_to_ogc_wkt d =
     (case dobj_datumshift d of
        Some s \<Rightarrow>
          py_then (obj_to_ogc_wkt s) (\<lambda>t.
          py_return (''DATUM["'' @ dn_ogc_wkt (dobj_name d) @ ''", ''
                       @ Ellipsoid_to_ogc_wkt (dobj_ellips d) @ '', '' @ t @ '']''))
      | None \<Rightarrow>
          py_return (''DATUM["'' @ dn_ogc_wkt (dobj_name d) @ ''", ''
                       @ Ellipsoid_to_ogc_wkt (dobj_ellips d) @ '']''))\<close>

definition call_Datum_to_esri_wkt :: "'w Datum_obj \<Rightarrow> ('w, string) call" where
  \<open>call_Datum_to_esri_wkt d =
     (case dobj_datumshift d of
        Some s \<Rightarrow>
          py_then (obj_to_esri_wkt s) (\<lambda>t.
          py_return (''DATUM["'' @ dn_esri_wkt (dobj_name d) @ ''", ''
                       @ Ellipsoid_to_esri_wkt (dobj_ellips d) @ '', '' @ t @ '']''))
      | None \<Rightarrow>
          py_return (''DATUM["'' @ dn_esri_wkt (dobj_name d) @ ''", ''
                       @ Ellipsoid_to_esri_wkt (dobj_ellips d) @ '']''))\<close>

definition call_GeogCS_to_proj4 :: "'w GeogCS_obj \<Rightarrow> ('w, string) call" where
  "call_GeogCS_to_proj4 g =
     py_then (call_Datum_to_proj4 (gobj_datum g)) (\<lambda>d.
     py_then (obj_to_proj4 (gobj_prime_mer g)) (\<lambda>pm.
     py_then (obj_to_proj4 (gobj_angunit g)) (\<lambda>au.
     py_return (d @ '' '' @ pm @ '' '' @ au))))"

definition call_GeogCS_to_ogc_wkt :: "'w GeogCS_obj \<Rightarrow> ('w, string) call" where
  \<open>call_GeogCS_to_ogc_wkt g =
     py_then (call_Datum_to_ogc_wkt (gobj_datum g)) (\<lambda>d.
     py_then (obj_to_ogc_wkt (gobj_prime_mer g)) (\<lambda>pm.
     py_then (obj_to_ogc_wkt (gobj_angunit g)) (\<lambda>au.
     py_return (''GEOGCS["'' @ gobj_name g @ ''", '' @ d @ '', '' @ pm @ '', '' @ au
       @ '', AXIS["Lon", '' @ dir_ogc_wkt (fst (gobj_twin_ax g))
       @ ''], AXIS["Lat", '' @ dir_ogc_wkt (snd (gobj_twin_ax g)) @ '']]''))))\<close>

definition call_GeogCS_to_esri_wkt :: "'w GeogCS_obj \<Rightarrow> ('w, string) call" where
  \<open>call_GeogCS_to_esri_wkt g =
     py_then (call_Datum_to_esri_wkt (gobj_datum g)) (\<lambda>d.
     py_then (obj_to_esri_wkt (gobj_prime_mer g)) (\<lambda>pm.
     py_then (obj_to_esri_wkt (gobj_angunit g)) (\<lambda>au.
     py_return (''GEOGCS["'' @ gobj_name g @ ''", '' @ d @ '', '' @ pm @ '', '' @ au
       @ '', AXIS["Lon", '' @ dir_esri_wkt (fst (gobj_twin_ax g))
       @ ''], AXIS["Lat", '' @ dir_esri_wkt (snd (gobj_twin_ax g)) @ '']]''))))\<close>

definition call_ProjCS_to_proj4 :: "'w ProjCS_obj \<Rightarrow> ('w, string) call" where
  "call_ProjCS_to_proj4 c =
     py_then (call_GeogCS_to_proj4 (pobj_geogcs c)) (\<lambda>g.
     py_then (call_each (map obj_to_proj4 (pobj_params c))) (\<lambda>ps.
     py_then (obj_to_proj4 (pobj_unit c)) (\<lambda>u.
     py_return (Projection_to_proj4 (pobj_proj c) @ '' '' @ g @ '' '' @ join '' '' ps
       @ '' '' @ u @ '' +axis='' @ dir_proj4 (fst (pobj_twin_ax c))
       @ dir_proj4 (snd (pobj_twin_ax c)) @ ''u''))))"

definition call_ProjCS_to_ogc_wkt :: "'w ProjCS_obj \<Rightarrow> ('w, string) call" where
  \<open>call_ProjCS_to_ogc_wkt c =
     py_then (call_GeogCS_to_ogc_wkt (pobj_geogcs c)) (\<lambda>g.
     py_then (call_each (map obj_to_ogc_wkt (pobj_params c))) (\<lambda>ps.
     py_then (obj_to_ogc_wkt (pobj_unit c)) (\<lambda>u.
     py_return (''PROJCS["'' @ pobj_name c @ ''", '' @ g @ '', ''
       @ Projection_to_ogc_wkt (pobj_proj c) @ '', '' @ join '', '' ps @ '', '' @ u
       @ '', AXIS["X", '' @ dir_ogc_wkt (fst (pobj_twin_ax c))
       @ ''], AXIS["Y", '' @ dir_ogc_wkt (snd (pobj_twin_ax c)) @ '']]''))))\<close>

definition call_ProjCS_to_esri_wkt :: "'w ProjCS_obj \<Rightarrow> ('w, string) call" where
  \<open>call_ProjCS_to_esri_wkt c =
     py_then (call_GeogCS_to_esri_wkt (pobj_geogcs c)) (\<lambda>g.
     py_then (call_each (map obj_to_esri_wkt (pobj_params c))) (\<lambda>ps.
     py_then (obj_to_esri_wkt (pobj_unit c)) (\<lambda>u.
     py_return (''PROJCS["'' @ pobj_name c @ ''", '' @ g @ '', ''
       @ Projection_to_esri_wkt (pobj_proj c) @ '', '' @ join '', '' ps @ '', '' @ u
       @ '', AXIS["X", '' @ dir_esri_wkt (fst (pobj_twin_ax c))
       @ ''], AXIS["Y", '' @ dir_esri_wkt (snd (pobj_twin_ax c)) @ '']]''))))\<close>

definition call_CRS_to_proj4 :: "'w CRS_obj \<Rightarrow> ('w, string option) call" where
  "call_CRS_to_proj4 c =
     (case obj_toplevel c of
        ObjProjCS p \<Rightarrow> py_then (call_ProjCS_to_proj4 p) (\<lambda>s. py_return (Some (s @ '' +no_defs'')))
      | ObjGeogCS g \<Rightarrow>
          py_then (call_GeogCS_to_proj4 g) (\<lambda>s.
          py_return (Some (''+proj=longlat '' @ s @ '' +no_defs'')))
      | ObjOther x \<Rightarrow> py_return None)"

definition call_CRS_to_ogc_wkt :: "'w CRS_obj \<Rightarrow> ('w, string) call" where
  "call_CRS_to_ogc_wkt c =
     (case obj_toplevel c of
        ObjProjCS p \<Rightarrow> call_ProjCS_to_ogc_wkt p
      | ObjGeogCS g \<Rightarrow> call_GeogCS_to_ogc_wkt g
      | ObjOther x \<Rightarrow> fobj_to_ogc_wkt x)"

definition call_CRS_to_esri_wkt :: "'w CRS_obj \<Rightarrow> ('w, string) call" where
  "call_CRS_to_esri_wkt c =
     (case obj_toplevel c of
        ObjProjCS p \<Rightarrow> call_ProjCS_to_esri_wkt p
      | ObjGeogCS g \<Rightarrow> call_GeogCS_to_esri_wkt g
      | ObjOther x \<Rightarrow> fobj_to_esri_wkt x)"

text \<open>
  A call is steady when what it does (the exception or the value) is the same in every
  world; it may still change the world. A call returns when it raises in no world.
\<close>

definition steady :: "('w, 'a) call \<Rightarrow> bool" where
  "steady m \<longleftrightarrow> (\<forall>w w'. fst (m w) = fst (m w'))"

definition returns :: "('w, 'a) call \<Rightarrow> bool" where
  "returns m \<longleftrightarrow> (\<forall>w. \<exists>x. fst (m w) = Inr x)"

text \<open>A property of calls that holds of every outside render method in a tree.\<close>

definition every_parameter :: "(('w, string) call \<Rightarrow> bool) \<Rightarrow> 'w parameter_obj \<Rightarrow> bool" where
  "every_parameter P p \<longleftrightarrow> P (obj_to_proj4 p) \<and> P (obj_to_ogc_wkt p) \<and> P (obj_to_esri_wkt p)"

definition every_Datum :: "(('w, string) call \<Rightarrow> bool) \<Rightarrow> 'w Datum_obj \<Rightarrow> bool" where
  "every_Datum P d \<longleftrightarrow>
     (case dobj_datumshift d of None \<Rightarrow> True | Some s \<Rightarrow> every_parameter P s)"

definition every_GeogCS :: "(('w, string) call \<Rightarrow> bool) \<Rightarrow> 'w GeogCS_obj \<Rightarrow> bool" where
  "every_GeogCS P g \<longleftrightarrow>
     every_Datum P (gobj_datum g) \<and> every_parameter P (gobj_prime_mer g)
       \<and> every_parameter P (gobj_angunit g)"

definition every_ProjCS :: "(('w, string) call \<Rightarrow> bool) \<Rightarrow> 'w ProjCS_obj \<Rightarrow> bool" where
  "every_ProjCS P c \<longleftrightarrow>
     every_GeogCS P (pobj_geogcs c) \<and> list_all (every_parameter P) (pobj_params c)
       \<and> every_parameter P (pobj_unit c)"

definition every_CRS :: "(('w, string) call \<Rightarrow> bool) \<Rightarrow> 'w CRS_obj \<Rightarrow> bool" where
  "every_CRS P c \<longleftrightarrow>
     (case obj_toplevel c of
        ObjProjCS p \<Rightarrow> every_ProjCS P p
      | ObjGeogCS g \<Rightarrow> every_GeogCS P g
      | ObjOther x \<Rightarrow> P (fobj_to_ogc_wkt x) \<and> P (fobj_to_esri_wkt x))"

text \<open>
  The tree above seen as a tree of calls: every outside method returns its text and
  leaves the world as it is.
\<close>

definition obj_of_parameter :: "parameter \<Rightarrow> 'w parameter_obj" where
  "obj_of_parameter p =
     \<lparr>obj_to_proj4 = py_return (par_to_proj4 p), obj_to_ogc_wkt = py_return (par_to_ogc_wkt p),
      obj_to_esri_wkt = py_return (par_to_esri_wkt p)\<rparr>"

definition obj_of_Datum :: "Datum \<Rightarrow> 'w Datum_obj" where
  "obj_of_Datum d =
     \<lparr>dobj_name = dat_name d, dobj_ellips = ellips d,
      dobj_datumshift = map_option obj_of_parameter (datumshift d)\<rparr>"

definition obj_of_GeogCS :: "GeogCS \<Rightarrow> 'w GeogCS_obj" where
  "obj_of_GeogCS g =
     \<lparr>gobj_name = geog_name g, gobj_datum = obj_of_Datum (datum g),
      gobj_prime_mer = obj_of_parameter (prime_mer g), gobj_angunit = obj_of_parameter (angunit g),
      gobj_twin_ax = geog_twin_ax g\<rparr>"

definition obj_of_ProjCS :: "ProjCS \<Rightarrow> 'w ProjCS_obj" where
  "obj_of_ProjCS c =
     \<lparr>pobj_name = projcs_name c, pobj_geogcs = obj_of_GeogCS (geogcs c), pobj_proj = proj c,
      pobj_params = map obj_of_parameter (params c), pobj_unit = obj_of_parameter (unit c),
      pobj_twin_ax = projcs_twin_ax c\<rparr>"

definition obj_of_root :: "root \<Rightarrow> 'w root_obj" where
  "obj_of_root t =
     (case t of
        TopProjCS p \<Rightarrow> ObjProjCS (obj_of_ProjCS p)
      | TopGeogCS g \<Rightarrow> ObjGeogCS (obj_of_GeogCS g)
      | TopOther x \<Rightarrow>
          ObjOther \<lparr>fobj_to_ogc_wkt = (\<lambda>w. (frn_to_ogc_wkt x, w)),
                    fobj_to_esri_wkt = (\<lambda>w. (frn_to_esri_wkt x, w))\<rparr>)"

definition obj_of_CRS :: "CRS \<Rightarrow> 'w CRS_obj" where
  "obj_of_CRS c = \<lparr>obj_toplevel = obj_of_root (toplevel c)\<rparr>"

subsection \<open>Example objects\<close>

text \<open>
  A small catalog and a tree built from it with the constructors, used to run the
  renders on concrete input.
\<close>

definition ex_dirs :: directions where
  "ex_dirs = \<lparr>East = \<lparr>dir_proj4 = ''e'', dir_ogc_wkt = ''EAST'', dir_esri_wkt = ''EAST''\<rparr>,
              North = \<lparr>dir_proj4 = ''n'', dir_ogc_wkt = ''NORTH'', dir_esri_wkt = ''NORTH''\<rparr>\<rparr>"

definition ex_South :: direction where
  "ex_South = \<lparr>dir_proj4 = ''s'', dir_ogc_wkt = ''SOUTH'', dir_esri_wkt = ''SOUTH''\<rparr>"

definition ex_West :: direction where
  "ex_West = \<lparr>dir_proj4 = ''w'', dir_ogc_wkt = ''WEST'', dir_esri_wkt = ''WEST''\<rparr>"

definition ex_ellps_WGS84 :: ellipsoid_name where
  "ex_ellps_WGS84 = \<lparr>en_unknown = False, en_proj4 = Some ''WGS84'', en_ogc_wkt = ''WGS_1984'',
     en_esri_wkt = ''WGS_1984'', en_semimaj_ax = Some ''6378137.0'',
     en_inv_flat = Some ''298.257223563''\<rparr>"

definition ex_ellps_Unknown :: ellipsoid_name where
  "ex_ellps_Unknown = \<lparr>en_unknown = True, en_proj4 = Some [], en_ogc_wkt = ''Unknown'',
     en_esri_wkt = ''Unknown'', en_semimaj_ax = None, en_inv_flat = None\<rparr>"

definition ex_ellps_noid :: ellipsoid_name where
  "ex_ellps_noid = \<lparr>en_unknown = False, en_proj4 = None, en_ogc_wkt = ''Xian_1980'',
     en_esri_wkt = ''Xian_1980'', en_semimaj_ax = Some ''6378140.0'',
     en_inv_flat = Some ''298.257''\<rparr>"

definition ex_datum_WGS84 :: datum_name where
  "ex_datum_WGS84 = \<lparr>dn_unknown = False, dn_proj4 = Some ''WGS84'', dn_ogc_wkt = ''WGS_1984'',
     dn_esri_wkt = ''D_WGS_1984''\<rparr>"

definition ex_datum_Unknown :: datum_name where
  "ex_datum_Unknown = \<lparr>dn_unknown = True, dn_proj4 = Some [], dn_ogc_wkt = ''Unknown'',
     dn_esri_wkt = ''D_Unknown''\<rparr>"

definition ex_datum_noid :: datum_name where
  "ex_datum_noid = \<lparr>dn_unknown = False, dn_proj4 = None, dn_ogc_wkt = ''Xian_1980'',
     dn_esri_wkt = ''D_Xian_1980''\<rparr>"

definition ex_shift :: parameter where
  "ex_shift = \<lparr>par_to_proj4 = ''+towgs84=0,0,0'', par_to_ogc_wkt = ''TOWGS84[0, 0, 0]'',
     par_to_esri_wkt = ''TOWGS84[0, 0, 0]''\<rparr>"

definition ex_prime_mer :: parameter where
  \<open>ex_prime_mer = \<lparr>par_to_proj4 = ''+pm=0'', par_to_ogc_wkt = ''PRIMEM["Greenwich", 0]'',
     par_to_esri_wkt = ''PRIMEM["Greenwich", 0]''\<rparr>\<close>

definition ex_angunit :: parameter where
  \<open>ex_angunit = \<lparr>par_to_proj4 = ''+to_meter=0.0174532925199433'',
     par_to_ogc_wkt = ''UNIT["degree", 0.0174532925199433]'',
     par_to_esri_wkt = ''UNIT["Degree", 0.0174532925199433]''\<rparr>\<close>

definition ex_unit :: parameter where
  \<open>ex_unit = \<lparr>par_to_proj4 = ''+to_meter=1.0'', par_to_ogc_wkt = ''UNIT["Meters", 1.0]'',
     par_to_esri_wkt = ''UNIT["Meters", 1.0]''\<rparr>\<close>

definition ex_parA :: parameter where
  \<open>ex_parA = \<lparr>par_to_proj4 = ''+lon_0=9'', par_to_ogc_wkt = ''PARAMETER["Central_Meridian", 9]'',
     par_to_esri_wkt = ''PARAMETER["Central_Meridian", 9]''\<rparr>\<close>

definition ex_parB :: parameter where
  \<open>ex_parB = \<lparr>par_to_proj4 = ''+x_0=500000'', par_to_ogc_wkt = ''PARAMETER["false_easting", 500000]'',
     par_to_esri_wkt = ''PARAMETER["False_Easting", 500000]''\<rparr>\<close>

definition ex_parC :: parameter where
  \<open>ex_parC = \<lparr>par_to_proj4 = ''+y_0=0'', par_to_ogc_wkt = ''PARAMETER["false_northing", 0]'',
     par_to_esri_wkt = ''PARAMETER["False_Northing", 0]''\<rparr>\<close>

definition ex_projection :: Projection where
  "ex_projection = Projection_init
     \<lparr>pn_proj4 = Some ''tmerc'', pn_ogc_wkt = ''Transverse_Mercator'',
      pn_esri_wkt = ''Transverse_Mercator''\<rparr>"

definition ex_ellipsoid :: Ellipsoid where
  "ex_ellipsoid = Ellipsoid_init ex_ellps_WGS84 None None"

definition ex_ellipsoid_Unknown :: Ellipsoid where
  "ex_ellipsoid_Unknown = Ellipsoid_init ex_ellps_Unknown (Some ''6378137.0'') (Some ''298.257223563'')"

definition ex_datum :: Datum where
  "ex_datum = Datum_init ex_datum_WGS84 ex_ellipsoid None"

definition ex_geogcs :: GeogCS where
  "ex_geogcs = GeogCS_init ex_dirs ''WGS 84'' ex_datum ex_prime_mer ex_angunit None"

definition ex_projcs :: ProjCS where
  "ex_projcs = ProjCS_init ex_dirs ''WGS 84 / UTM zone 32N'' ex_geogcs ex_projection
     [ex_parA, ex_parB, ex_parC] ex_unit None"

text \<open>
  Parameter objects whose render methods count their calls: the world is the number of
  outside calls made so far, and every call adds one to it.
\<close>

definition counting :: "string \<Rightarrow> (nat, string) call" where
  "counting s = (\<lambda>n. (Inr s, Suc n))"

definition counting_parameter :: "parameter \<Rightarrow> nat parameter_obj" where
  "counting_parameter p =
     \<lparr>obj_to_proj4 = counting (par_to_proj4 p), obj_to_ogc_wkt = counting (par_to_ogc_wkt p),
      obj_to_esri_wkt = counting (par_to_esri_wkt p)\<rparr>"

definition ex_geogcs_obj :: "nat GeogCS_obj" where
  "ex_geogcs_obj =
     \<lparr>gobj_name = ''WGS 84'',
      gobj_datum = \<lparr>dobj_name = ex_datum_WGS84, dobj_ellips = ex_ellipsoid,
                    dobj_datumshift = Some (counting_parameter ex_shift)\<rparr>,
      gobj_prime_mer = counting_parameter ex_prime_mer,
      gobj_angunit = counting_parameter ex_angunit,
      gobj_twin_ax = (East ex_dirs, North ex_dirs)\<rparr>"

definition ex_crs_obj :: "nat CRS_obj" where
  "ex_crs_obj =
     \<lparr>obj_toplevel = ObjProjCS
        \<lparr>pobj_name = ''WGS 84 / UTM zone 32N'', pobj_geogcs = ex_geogcs_obj,
         pobj_proj = ex_projection,
         pobj_params = map counting_parameter [ex_parA, ex_parB, ex_parC],
         pobj_unit = counting_parameter ex_unit,
         pobj_twin_ax = (East ex_dirs, North ex_dirs)\<rparr>\<rparr>"

text \<open>
  A prime meridian whose PROJ render tells how many outside calls came before it: a
  method that is not steady.
\<close>

definition ex_unsteady_prime_mer :: "nat parameter_obj" where
  "ex_unsteady_prime_mer =
     \<lparr>obj_to_proj4 = (\<lambda>n. (Inr (if n = 0 then ''+pm=0'' else ''+pm=1''), Suc n)),
      obj_to_ogc_wkt = counting ''PRIMEM[0]'', obj_to_esri_wkt = counting ''PRIMEM[0]''\<rparr>"

definition ex_unsteady_crs_obj :: "nat CRS_obj" where
  "ex_unsteady_crs_obj =
     \<lparr>obj_toplevel = ObjGeogCS (ex_geogcs_obj\<lparr>gobj_prime_mer := ex_unsteady_prime_mer,
        gobj_datum := \<lparr>dobj_name = ex_datum_WGS84, dobj_ellips = ex_ellipsoid,
                       dobj_datumshift = None\<rparr>\<rparr>)\<rparr>"

section \<open>Properties\<close>

subsection \<open>Text helpers\<close>

text \<open>
  A text \<open>t\<close> that does not hold the character \<open>c\<close> occurs in \<open>xs @ c # ys\<close> exactly when
  it occurs in one of the two sides.
\<close>

lemma sublist_sep:
  assumes "c \<notin> set t"
  shows "sublist t (xs @ c # ys) \<longleftrightarrow> sublist t xs \<or> sublist t ys"
proof
  assume "sublist t (xs @ c # ys)"
  then consider "sublist t xs" | "sublist t (c # ys)"
    | t1 t2 where "t = t1 @ t2" "suffix t1 xs" "prefix t2 (c # ys)"
    by (auto simp: sublist_append)
  then show "sublist t xs \<or> sublist t ys"
  proof cases
    case 1
    then show ?thesis by simp
  next
    case 2
    then show ?thesis
      using assms by (cases t) (auto simp: sublist_Cons_right prefix_Cons)
  next
    case 3
    show ?thesis
    proof (cases t2)
      case Nil
      with 3 show ?thesis by auto
    next
      case (Cons a as)
      with 3 assms show ?thesis by (auto simp: prefix_Cons)
    qed
  qed
next
  assume "sublist t xs \<or> sublist t ys"
  then show "sublist t (xs @ c # ys)"
    by (auto simp: sublist_append sublist_Cons_right)
qed

lemma sublist_sp:
  "CHR '' '' \<notin> set t \<Longrightarrow> sublist t (xs @ '' '' @ ys) \<longleftrightarrow> sublist t xs \<or> sublist t ys"
  using sublist_sep [of "CHR '' ''" t xs ys] by simp

subsection \<open>Ellipsoid\<close>

text \<open>
  Claim C2. The PROJ render of an ellipsoid has two forms. When the name is an instance
  of \<^verbatim>\<open>ellipsoids.Unknown\<close>, or its \<^verbatim>\<open>proj4\<close> attribute is false (\<^verbatim>\<open>None\<close> or empty), the
  render is exactly \<^verbatim>\<open>+a=<semimaj_ax> +f=<inv_flat>\<close>, and the text \<^verbatim>\<open>+ellps=\<close> occurs
  nowhere in it as long as it does not occur inside the two formatted numbers.
  Otherwise, with \<open>ident\<close> the non-empty \<^verbatim>\<open>proj4\<close> attribute, the render is exactly
  \<^verbatim>\<open>+ellps=<ident> +a=<semimaj_ax> +f=<inv_flat>\<close>. In every case the render ends with
  the numeric part \<^verbatim>\<open>+a=<semimaj_ax> +f=<inv_flat>\<close>.
\<close>

theorem Ellipsoid_to_proj4_forms:
  "(en_unknown (ell_name e) \<or> \<not> py_truthy (en_proj4 (ell_name e)) \<longrightarrow>
      Ellipsoid_to_proj4 e = ''+a='' @ py_str (semimaj_ax e) @ '' +f='' @ py_str (inv_flat e)
      \<and> (\<not> sublist ''+ellps='' (py_str (semimaj_ax e)) \<longrightarrow>
         \<not> sublist ''+ellps='' (py_str (inv_flat e)) \<longrightarrow>
         \<not> sublist ''+ellps='' (Ellipsoid_to_proj4 e)))
   \<and> (\<not> en_unknown (ell_name e) \<and> en_proj4 (ell_name e) = Some ident \<and> ident \<noteq> [] \<longrightarrow>
      Ellipsoid_to_proj4 e =
        ''+ellps='' @ ident @ '' +a='' @ py_str (semimaj_ax e) @ '' +f='' @ py_str (inv_flat e))
   \<and> suffix (''+a='' @ py_str (semimaj_ax e) @ '' +f='' @ py_str (inv_flat e))
        (Ellipsoid_to_proj4 e)"
proof -
  let ?a = "py_str (semimaj_ax e)" and ?f = "py_str (inv_flat e)"
  have raw: "\<not> sublist ''+ellps='' ?a \<Longrightarrow> \<not> sublist ''+ellps='' ?f \<Longrightarrow>
      \<not> sublist ''+ellps='' (''+a='' @ ?a @ '' +f='' @ ?f)"
    using sublist_sep [of "CHR '' ''" "''+ellps=''" "''+a='' @ ?a" "''+f='' @ ?f"]
    by (simp add: sublist_Cons_right prefix_Cons)
  have suf: "suffix (''+a='' @ ?a @ '' +f='' @ ?f)
      (''+ellps='' @ x @ '' +a='' @ ?a @ '' +f='' @ ?f)" for x
    using suffix_appendI [of "''+a='' @ ?a @ '' +f='' @ ?f" "''+a='' @ ?a @ '' +f='' @ ?f"
        "''+ellps='' @ x @ '' ''"]
    by simp
  show ?thesis
    using raw suf
    by (auto simp: Ellipsoid_to_proj4_def py_truthy_def py_str_def split: option.splits)
qed

text \<open>
  The two forms on the example ellipsoids: the Unknown name with explicit numbers, and
  WGS84 with the numbers of its catalog entry.
\<close>

theorem Ellipsoid_to_proj4_forms_witness:
  "Ellipsoid_to_proj4 ex_ellipsoid_Unknown = ''+a=6378137.0 +f=298.257223563''
   \<and> \<not> sublist ''+ellps='' (Ellipsoid_to_proj4 ex_ellipsoid_Unknown)
   \<and> Ellipsoid_to_proj4 ex_ellipsoid = ''+ellps=WGS84 +a=6378137.0 +f=298.257223563''"
  using Ellipsoid_to_proj4_forms [of ex_ellipsoid_Unknown]
    Ellipsoid_to_proj4_forms [of ex_ellipsoid "''WGS84''"]
  by (simp add: ex_ellipsoid_Unknown_def ex_ellipsoid_def Ellipsoid_init_def ex_ellps_Unknown_def
      ex_ellps_WGS84_def py_str_def py_truthy_def sublist_Cons_right prefix_Cons)

subsection \<open>Datum\<close>

text \<open>
  Claim C1. The PROJ render of a datum follows four cases in this order. (1) With a datum
  shift \<open>s\<close> the render is the ellipsoid's render, a space, and the shift's render; the
  name of the datum plays no part in it (replacing the name by any \<open>n\<close> gives the same
  text), and the text \<^verbatim>\<open>+datum=\<close> does not occur in it as long as it occurs in neither
  of the two renders it is built from. (2) Without a shift and with a name that is an
  instance of \<^verbatim>\<open>datums.Unknown\<close> the render is the ellipsoid's render. (3) Without a
  shift and with a name whose \<^verbatim>\<open>proj4\<close> attribute is false (\<^verbatim>\<open>None\<close> or empty) it is the
  ellipsoid's render. (4) Otherwise, with \<open>ident\<close> the non-empty \<^verbatim>\<open>proj4\<close> attribute, it
  is \<^verbatim>\<open>+datum=<ident>\<close>, a space, and the ellipsoid's render.
\<close>

theorem Datum_to_proj4_priority:
  "(datumshift d = Some s \<longrightarrow>
      Datum_to_proj4 d = Ellipsoid_to_proj4 (ellips d) @ '' '' @ par_to_proj4 s
      \<and> Datum_to_proj4 (d\<lparr>dat_name := n\<rparr>) = Datum_to_proj4 d
      \<and> (\<not> sublist ''+datum='' (Ellipsoid_to_proj4 (ellips d)) \<longrightarrow>
         \<not> sublist ''+datum='' (par_to_proj4 s) \<longrightarrow>
         \<not> sublist ''+datum='' (Datum_to_proj4 d)))
   \<and> (datumshift d = None \<and> dn_unknown (dat_name d) \<longrightarrow>
      Datum_to_proj4 d = Ellipsoid_to_proj4 (ellips d))
   \<and> (datumshift d = None \<and> \<not> dn_unknown (dat_name d) \<and> \<not> py_truthy (dn_proj4 (dat_name d)) \<longrightarrow>
      Datum_to_proj4 d = Ellipsoid_to_proj4 (ellips d))
   \<and> (datumshift d = None \<and> \<not> dn_unknown (dat_name d) \<and> dn_proj4 (dat_name d) = Some ident
        \<and> ident \<noteq> [] \<longrightarrow>
      Datum_to_proj4 d = ''+datum='' @ ident @ '' '' @ Ellipsoid_to_proj4 (ellips d))"
proof -
  have shift: "\<not> sublist ''+datum='' (e @ '' '' @ t)"
    if "\<not> sublist ''+datum='' e" and "\<not> sublist ''+datum='' t" for e t :: string
    using that sublist_sp [of "''+datum=''" e t] by simp
  show ?thesis
    using shift [of "Ellipsoid_to_proj4 (ellips d)" "par_to_proj4 s"]
    by (simp add: Datum_to_proj4_def py_truthy_def py_str_def)
qed

text \<open>
  The four cases on example datums: WGS84 with a shift, the Unknown name, a name with no
  PROJ identifier, and WGS84 without a shift.
\<close>

theorem Datum_to_proj4_priority_witness:
  "Datum_to_proj4 (Datum_init ex_datum_WGS84 ex_ellipsoid (Some ex_shift))
     = ''+ellps=WGS84 +a=6378137.0 +f=298.257223563 +towgs84=0,0,0''
   \<and> \<not> sublist ''+datum='' (Datum_to_proj4 (Datum_init ex_datum_WGS84 ex_ellipsoid (Some ex_shift)))
   \<and> Datum_to_proj4 (Datum_init ex_datum_Unknown ex_ellipsoid None)
     = ''+ellps=WGS84 +a=6378137.0 +f=298.257223563''
   \<and> Datum_to_proj4 (Datum_init ex_datum_noid ex_ellipsoid None)
     = ''+ellps=WGS84 +a=6378137.0 +f=298.257223563''
   \<and> Datum_to_proj4 ex_datum = ''+datum=WGS84 +ellps=WGS84 +a=6378137.0 +f=298.257223563''"
proof -
  have e: "Ellipsoid_to_proj4 ex_ellipsoid = ''+ellps=WGS84 +a=6378137.0 +f=298.257223563''"
    by (simp add: ex_ellipsoid_def Ellipsoid_init_def ex_ellps_WGS84_def Ellipsoid_to_proj4_def
        py_str_def py_truthy_def)
  have n: "\<not> sublist ''+datum='' ''+ellps=WGS84 +a=6378137.0 +f=298.257223563''"
    "\<not> sublist ''+datum='' ''+towgs84=0,0,0''"
    by (simp_all add: sublist_Cons_right prefix_Cons)
  show ?thesis
    using Datum_to_proj4_priority [where d = "Datum_init ex_datum_WGS84 ex_ellipsoid (Some ex_shift)"
          and s = ex_shift and n = ex_datum_Unknown and ident = "[]"]
      Datum_to_proj4_priority [where d = "Datum_init ex_datum_Unknown ex_ellipsoid None"
          and s = ex_shift and n = ex_datum_Unknown and ident = "[]"]
      Datum_to_proj4_priority [where d = "Datum_init ex_datum_noid ex_ellipsoid None"
          and s = ex_shift and n = ex_datum_Unknown and ident = "[]"]
      Datum_to_proj4_priority [where d = ex_datum
          and s = ex_shift and n = ex_datum_Unknown and ident = "''WGS84''"] e n
    by (simp add: Datum_init_def ex_datum_def ex_datum_WGS84_def ex_datum_Unknown_def
        ex_datum_noid_def ex_shift_def py_truthy_def sublist_Cons_right prefix_Cons)
qed

subsection \<open>GeogCS\<close>

text \<open>
  Claim C7. The PROJ render of a geographic system is the datum's render, a space, the
  prime meridian's render, a space, and the angular unit's render. The stored axis pair
  plays no part in it: replacing the pair (or the name) by any other gives the same
  text. The text \<^verbatim>\<open>+axis=\<close> does not occur in it as long as it occurs in none of the three
  renders it is built from.
\<close>

theorem GeogCS_to_proj4_no_axis:
  "GeogCS_to_proj4 g =
     Datum_to_proj4 (datum g) @ '' '' @ par_to_proj4 (prime_mer g) @ '' '' @ par_to_proj4 (angunit g)
   \<and> GeogCS_to_proj4 (g\<lparr>geog_twin_ax := t\<rparr>) = GeogCS_to_proj4 g
   \<and> GeogCS_to_proj4 (g\<lparr>geog_name := nm\<rparr>) = GeogCS_to_proj4 g
   \<and> (\<not> sublist ''+axis='' (Datum_to_proj4 (datum g)) \<longrightarrow>
      \<not> sublist ''+axis='' (par_to_proj4 (prime_mer g)) \<longrightarrow>
      \<not> sublist ''+axis='' (par_to_proj4 (angunit g)) \<longrightarrow>
      \<not> sublist ''+axis='' (GeogCS_to_proj4 g))"
proof -
  have three: "\<not> sublist ''+axis='' (a @ '' '' @ b @ '' '' @ c)"
    if "\<not> sublist ''+axis='' a" "\<not> sublist ''+axis='' b" "\<not> sublist ''+axis='' c"
    for a b c :: string
    using that sublist_sp [of "''+axis=''" a "b @ '' '' @ c"] sublist_sp [of "''+axis=''" b c]
    by simp
  show ?thesis
    using three [of "Datum_to_proj4 (datum g)" "par_to_proj4 (prime_mer g)" "par_to_proj4 (angunit g)"]
    by (simp add: GeogCS_to_proj4_def)
qed

text \<open>The example geographic system, and the same system with the axes South and West.\<close>

theorem GeogCS_to_proj4_no_axis_witness:
  "GeogCS_to_proj4 ex_geogcs
     = ''+datum=WGS84 +ellps=WGS84 +a=6378137.0 +f=298.257223563 +pm=0 +to_meter=0.0174532925199433''
   \<and> GeogCS_to_proj4 (ex_geogcs\<lparr>geog_twin_ax := (ex_South, ex_West)\<rparr>) = GeogCS_to_proj4 ex_geogcs
   \<and> \<not> sublist ''+axis='' (GeogCS_to_proj4 ex_geogcs)"
proof -
  have d: "Datum_to_proj4 ex_datum = ''+datum=WGS84 +ellps=WGS84 +a=6378137.0 +f=298.257223563''"
    by (simp add: ex_datum_def Datum_init_def ex_datum_WGS84_def Datum_to_proj4_def
        ex_ellipsoid_def Ellipsoid_init_def ex_ellps_WGS84_def Ellipsoid_to_proj4_def
        py_str_def py_truthy_def)
  have g: "datum ex_geogcs = ex_datum" "prime_mer ex_geogcs = ex_prime_mer"
    "angunit ex_geogcs = ex_angunit"
    by (simp_all add: ex_geogcs_def GeogCS_init_def)
  have n: "\<not> sublist ''+axis='' (Datum_to_proj4 (datum ex_geogcs))"
    "\<not> sublist ''+axis='' (par_to_proj4 (prime_mer ex_geogcs))"
    "\<not> sublist ''+axis='' (par_to_proj4 (angunit ex_geogcs))"
    by (simp_all add: g d ex_prime_mer_def ex_angunit_def sublist_Cons_right prefix_Cons)
  note th = GeogCS_to_proj4_no_axis [where g = ex_geogcs and t = "(ex_South, ex_West)"
      and nm = "''x''"]
  from th have a: "GeogCS_to_proj4 ex_geogcs
      = ''+datum=WGS84 +ellps=WGS84 +a=6378137.0 +f=298.257223563 +pm=0 +to_meter=0.0174532925199433''"
    by (simp add: g d ex_prime_mer_def ex_angunit_def)
  from th have b: "GeogCS_to_proj4 (ex_geogcs\<lparr>geog_twin_ax := (ex_South, ex_West)\<rparr>)
      = GeogCS_to_proj4 ex_geogcs"
    by blast
  from th n have c: "\<not> sublist ''+axis='' (GeogCS_to_proj4 ex_geogcs)"
    by blast
  from a b c show ?thesis
    by blast
qed

subsection \<open>ProjCS\<close>

text \<open>
  Claim C5. The PROJ render of a projected system is, in this order: the projection's
  render, a space, the render of the base geographic system, a space, the parameters'
  renders in the order of the list joined by single spaces, a space, the unit's render,
  and the text \<^verbatim>\<open> +axis=\<close> followed by the \<^verbatim>\<open>proj4\<close> attribute of the first axis
  direction, that of the second, and the letter \<^verbatim>\<open>u\<close>. Whatever the input, the render
  ends with that letter.
\<close>

theorem ProjCS_to_proj4_assembly:
  "ProjCS_to_proj4 c =
     Projection_to_proj4 (proj c) @ '' '' @ GeogCS_to_proj4 (geogcs c) @ '' ''
       @ join '' '' (map par_to_proj4 (params c)) @ '' '' @ par_to_proj4 (unit c)
       @ '' +axis='' @ dir_proj4 (fst (projcs_twin_ax c)) @ dir_proj4 (snd (projcs_twin_ax c)) @ ''u''
   \<and> suffix ('' +axis='' @ dir_proj4 (fst (projcs_twin_ax c)) @ dir_proj4 (snd (projcs_twin_ax c)) @ ''u'')
        (ProjCS_to_proj4 c)
   \<and> last (ProjCS_to_proj4 c) = CHR ''u''"
proof -
  let ?ax = "'' +axis='' @ dir_proj4 (fst (projcs_twin_ax c)) @ dir_proj4 (snd (projcs_twin_ax c)) @ ''u''"
  let ?front = "Projection_to_proj4 (proj c) @ '' '' @ GeogCS_to_proj4 (geogcs c) @ '' ''
       @ join '' '' (map par_to_proj4 (params c)) @ '' '' @ par_to_proj4 (unit c)"
  have eq: "ProjCS_to_proj4 c = ?front @ ?ax"
    by (simp add: ProjCS_to_proj4_def)
  have "suffix ?ax (?front @ ?ax)"
    by (rule suffix_appendI) simp
  moreover have "last (?front @ ?ax) = CHR ''u''"
    by simp
  ultimately show ?thesis
    using eq by simp
qed

text \<open>
  Claim C4. In each of the three grammars the render of a projected system built with the
  parameter list \<open>ps\<close> is a front part, the renders of \<open>ps\<close> in the order of the list
  joined by the grammar's separator, and a back part, where neither part depends on
  \<open>ps\<close>. Building the system with the reversed list puts the reversed list of renders in
  that place.
\<close>

theorem ProjCS_params_order:
  \<open>ProjCS_to_proj4 (ProjCS_init dirs nm g p ps u ax) =
     (Projection_to_proj4 p @ '' '' @ GeogCS_to_proj4 g @ '' '')
       @ join '' '' (map par_to_proj4 ps)
       @ ('' '' @ par_to_proj4 u @ '' +axis=''
           @ dir_proj4 (fst (projcs_twin_ax (ProjCS_init dirs nm g p [] u ax)))
           @ dir_proj4 (snd (projcs_twin_ax (ProjCS_init dirs nm g p [] u ax))) @ ''u'')
   \<and> ProjCS_to_ogc_wkt (ProjCS_init dirs nm g p ps u ax) =
     (''PROJCS["'' @ nm @ ''", '' @ GeogCS_to_ogc_wkt g @ '', '' @ Projection_to_ogc_wkt p @ '', '')
       @ join '', '' (map par_to_ogc_wkt ps)
       @ ('', '' @ par_to_ogc_wkt u @ '', AXIS["X", ''
           @ dir_ogc_wkt (fst (projcs_twin_ax (ProjCS_init dirs nm g p [] u ax))) @ ''], AXIS["Y", ''
           @ dir_ogc_wkt (snd (projcs_twin_ax (ProjCS_init dirs nm g p [] u ax))) @ '']]'')
   \<and> ProjCS_to_esri_wkt (ProjCS_init dirs nm g p ps u ax) =
     (''PROJCS["'' @ nm @ ''", '' @ GeogCS_to_esri_wkt g @ '', '' @ Projection_to_esri_wkt p @ '', '')
       @ join '', '' (map par_to_esri_wkt ps)
       @ ('', '' @ par_to_esri_wkt u @ '', AXIS["X", ''
           @ dir_esri_wkt (fst (projcs_twin_ax (ProjCS_init dirs nm g p [] u ax))) @ ''], AXIS["Y", ''
           @ dir_esri_wkt (snd (projcs_twin_ax (ProjCS_init dirs nm g p [] u ax))) @ '']]'')
   \<and> map par_to_proj4 (params (ProjCS_init dirs nm g p (rev ps) u ax))
       = rev (map par_to_proj4 (params (ProjCS_init dirs nm g p ps u ax)))
   \<and> map par_to_ogc_wkt (params (ProjCS_init dirs nm g p (rev ps) u ax))
       = rev (map par_to_ogc_wkt (params (ProjCS_init dirs nm g p ps u ax)))
   \<and> map par_to_esri_wkt (params (ProjCS_init dirs nm g p (rev ps) u ax))
       = rev (map par_to_esri_wkt (params (ProjCS_init dirs nm g p ps u ax)))\<close>
  by (simp add: ProjCS_init_def ProjCS_to_proj4_def ProjCS_to_ogc_wkt_def ProjCS_to_esri_wkt_def
      rev_map)

text \<open>
  The example system with its parameters \<open>A\<close>, \<open>B\<close>, \<open>C\<close>, and the same system built with
  \<open>C\<close>, \<open>B\<close>, \<open>A\<close>.
\<close>

lemma example_reversed_params:
  "ProjCS_to_proj4 ex_projcs =
     ''+proj=tmerc +datum=WGS84 +ellps=WGS84 +a=6378137.0 +f=298.257223563 +pm=0 +to_meter=0.0174532925199433 +lon_0=9 +x_0=500000 +y_0=0 +to_meter=1.0 +axis=enu''
   \<and> ProjCS_to_proj4 (ProjCS_init ex_dirs ''WGS 84 / UTM zone 32N'' ex_geogcs ex_projection
        (rev [ex_parA, ex_parB, ex_parC]) ex_unit None) =
     ''+proj=tmerc +datum=WGS84 +ellps=WGS84 +a=6378137.0 +f=298.257223563 +pm=0 +to_meter=0.0174532925199433 +y_0=0 +x_0=500000 +lon_0=9 +to_meter=1.0 +axis=enu''"
  by (simp add: ex_projcs_def ProjCS_init_def ProjCS_to_proj4_def ex_projection_def
      Projection_init_def Projection_to_proj4_def ex_geogcs_def GeogCS_init_def GeogCS_to_proj4_def
      ex_datum_def Datum_init_def ex_datum_WGS84_def Datum_to_proj4_def
      ex_ellipsoid_def Ellipsoid_init_def ex_ellps_WGS84_def Ellipsoid_to_proj4_def
      ex_prime_mer_def ex_angunit_def ex_unit_def ex_parA_def ex_parB_def ex_parC_def ex_dirs_def
      py_str_def py_truthy_def)

subsection \<open>Default axes\<close>

text \<open>
  Claim C6. A geographic or projected system constructed without an axis pair stores the
  pair (East, North) of the \<^verbatim>\<open>directions\<close> module, and is the very object that the
  constructor builds when given that pair; so every render of it is the render with
  East then North. In particular both WKT renders end with the two \<^verbatim>\<open>AXIS\<close> clauses of
  East and North, and the PROJ render of the projected system ends with \<^verbatim>\<open>+axis=\<close>
  followed by East's letter, North's letter and \<^verbatim>\<open>u\<close>.
\<close>

theorem default_axes_East_North:
  \<open>geog_twin_ax (GeogCS_init dirs nm d pm au None) = (East dirs, North dirs)
   \<and> projcs_twin_ax (ProjCS_init dirs nm' g p ps u None) = (East dirs, North dirs)
   \<and> GeogCS_init dirs nm d pm au None = GeogCS_init dirs nm d pm au (Some (East dirs, North dirs))
   \<and> ProjCS_init dirs nm' g p ps u None = ProjCS_init dirs nm' g p ps u (Some (East dirs, North dirs))
   \<and> suffix ('', AXIS["Lon", '' @ dir_ogc_wkt (East dirs) @ ''], AXIS["Lat", '' @ dir_ogc_wkt (North dirs) @ '']]'')
        (GeogCS_to_ogc_wkt (GeogCS_init dirs nm d pm au None))
   \<and> suffix ('', AXIS["Lon", '' @ dir_esri_wkt (East dirs) @ ''], AXIS["Lat", '' @ dir_esri_wkt (North dirs) @ '']]'')
        (GeogCS_to_esri_wkt (GeogCS_init dirs nm d pm au None))
   \<and> suffix ('', AXIS["X", '' @ dir_ogc_wkt (East dirs) @ ''], AXIS["Y", '' @ dir_ogc_wkt (North dirs) @ '']]'')
        (ProjCS_to_ogc_wkt (ProjCS_init dirs nm' g p ps u None))
   \<and> suffix ('', AXIS["X", '' @ dir_esri_wkt (East dirs) @ ''], AXIS["Y", '' @ dir_esri_wkt (North dirs) @ '']]'')
        (ProjCS_to_esri_wkt (ProjCS_init dirs nm' g p ps u None))
   \<and> suffix ('' +axis='' @ dir_proj4 (East dirs) @ dir_proj4 (North dirs) @ ''u'')
        (ProjCS_to_proj4 (ProjCS_init dirs nm' g p ps u None))\<close>
proof -
  have axes: \<open>geog_twin_ax (GeogCS_init dirs nm d pm au None) = (East dirs, North dirs)\<close>
    \<open>projcs_twin_ax (ProjCS_init dirs nm' g p ps u None) = (East dirs, North dirs)\<close>
    \<open>GeogCS_init dirs nm d pm au None = GeogCS_init dirs nm d pm au (Some (East dirs, North dirs))\<close>
    \<open>ProjCS_init dirs nm' g p ps u None = ProjCS_init dirs nm' g p ps u (Some (East dirs, North dirs))\<close>
    by (simp_all add: GeogCS_init_def ProjCS_init_def)
  have g_ogc: \<open>suffix ('', AXIS["Lon", '' @ dir_ogc_wkt (East dirs) @ ''], AXIS["Lat", '' @ dir_ogc_wkt (North dirs) @ '']]'')
        (GeogCS_to_ogc_wkt (GeogCS_init dirs nm d pm au None))\<close>
    by (rule suffixI [where zs = \<open>''GEOGCS["'' @ nm @ ''", '' @ Datum_to_ogc_wkt d
          @ '', '' @ par_to_ogc_wkt pm @ '', '' @ par_to_ogc_wkt au\<close>])
      (simp add: GeogCS_to_ogc_wkt_def GeogCS_init_def)
  have g_esri: \<open>suffix ('', AXIS["Lon", '' @ dir_esri_wkt (East dirs) @ ''], AXIS["Lat", '' @ dir_esri_wkt (North dirs) @ '']]'')
        (GeogCS_to_esri_wkt (GeogCS_init dirs nm d pm au None))\<close>
    by (rule suffixI [where zs = \<open>''GEOGCS["'' @ nm @ ''", '' @ Datum_to_esri_wkt d
          @ '', '' @ par_to_esri_wkt pm @ '', '' @ par_to_esri_wkt au\<close>])
      (simp add: GeogCS_to_esri_wkt_def GeogCS_init_def)
  have p_ogc: \<open>suffix ('', AXIS["X", '' @ dir_ogc_wkt (East dirs) @ ''], AXIS["Y", '' @ dir_ogc_wkt (North dirs) @ '']]'')
        (ProjCS_to_ogc_wkt (ProjCS_init dirs nm' g p ps u None))\<close>
    by (rule suffixI [where zs = \<open>''PROJCS["'' @ nm' @ ''", '' @ GeogCS_to_ogc_wkt g
          @ '', '' @ Projection_to_ogc_wkt p @ '', '' @ join '', '' (map par_to_ogc_wkt ps)
          @ '', '' @ par_to_ogc_wkt u\<close>])
      (simp add: ProjCS_to_ogc_wkt_def ProjCS_init_def)
  have p_esri: \<open>suffix ('', AXIS["X", '' @ dir_esri_wkt (East dirs) @ ''], AXIS["Y", '' @ dir_esri_wkt (North dirs) @ '']]'')
        (ProjCS_to_esri_wkt (ProjCS_init dirs nm' g p ps u None))\<close>
    by (rule suffixI [where zs = \<open>''PROJCS["'' @ nm' @ ''", '' @ GeogCS_to_esri_wkt g
          @ '', '' @ Projection_to_esri_wkt p @ '', '' @ join '', '' (map par_to_esri_wkt ps)
          @ '', '' @ par_to_esri_wkt u\<close>])
      (simp add: ProjCS_to_esri_wkt_def ProjCS_init_def)
  have p_proj4: \<open>suffix ('' +axis='' @ dir_proj4 (East dirs) @ dir_proj4 (North dirs) @ ''u'')
        (ProjCS_to_proj4 (ProjCS_init dirs nm' g p ps u None))\<close>
    by (rule suffixI [where zs = \<open>Projection_to_proj4 p @ '' '' @ GeogCS_to_proj4 g @ '' ''
          @ join '' '' (map par_to_proj4 ps) @ '' '' @ par_to_proj4 u\<close>])
      (simp add: ProjCS_to_proj4_def ProjCS_init_def)
  from axes g_ogc g_esri p_ogc p_esri p_proj4 show ?thesis
    by blast
qed

text \<open>The example systems, which are built without an axis pair.\<close>

lemma example_geogcs_ogc_wkt:
  \<open>GeogCS_to_ogc_wkt ex_geogcs =
     ''GEOGCS["WGS 84", DATUM["WGS_1984", SPHEROID["WGS_1984", 6378137.0, 298.257223563]], PRIMEM["Greenwich", 0], UNIT["degree", 0.0174532925199433], AXIS["Lon", EAST], AXIS["Lat", NORTH]]''\<close>
  by (simp add: ex_geogcs_def GeogCS_init_def GeogCS_to_ogc_wkt_def
      ex_datum_def Datum_init_def ex_datum_WGS84_def Datum_to_ogc_wkt_def
      ex_ellipsoid_def Ellipsoid_init_def ex_ellps_WGS84_def Ellipsoid_to_ogc_wkt_def
      ex_prime_mer_def ex_angunit_def ex_dirs_def py_str_def)

subsection \<open>CRS\<close>



text \<open>
  Claim C10. The constructor of CRS stores any root as it is. For a root that is neither
  a \<open>ProjCS\<close> nor a \<open>GeogCS\<close> the PROJ render returns \<^verbatim>\<open>None\<close>, and those are the only
  roots for which it does.
\<close>

theorem CRS_to_proj4_other_root:
  "toplevel (CRS_init t) = t
   \<and> CRS_to_proj4 (CRS_init (TopOther x)) = None
   \<and> (CRS_to_proj4 (CRS_init t) = None \<longleftrightarrow> (\<exists>y. t = TopOther y))"
  by (cases t) (simp_all add: CRS_init_def CRS_to_proj4_def)

subsection \<open>Filling the numbers of an ellipsoid\<close>

text \<open>
  The constructor copies the attribute of the name when an argument is \<^verbatim>\<open>None\<close>, without
  looking at what it copies. The Unknown entry of the example catalog has no numbers, so an
  ellipsoid built from it with no arguments holds \<^verbatim>\<open>None\<close> in both fields.
\<close>

theorem Ellipsoid_init_absent_counterexample:
  "\<not> (semimaj_ax (Ellipsoid_init ex_ellps_Unknown None None) \<noteq> None
      \<and> inv_flat (Ellipsoid_init ex_ellps_Unknown None None) \<noteq> None)"
  by (simp add: Ellipsoid_init_def ex_ellps_Unknown_def)

text \<open>
  Claim C8, as the constructor behaves. An argument that is given is stored; an argument that is absent is
  replaced by the attribute of the same name of the catalog entry. So a field holds a
  number whenever its argument was given or the catalog entry has a number for it.
\<close>

theorem Ellipsoid_init_fills:
  "ell_name (Ellipsoid_init n a f) = n
   \<and> semimaj_ax (Ellipsoid_init n a f) = (case a of None \<Rightarrow> en_semimaj_ax n | Some v \<Rightarrow> Some v)
   \<and> inv_flat (Ellipsoid_init n a f) = (case f of None \<Rightarrow> en_inv_flat n | Some v \<Rightarrow> Some v)
   \<and> ((a = None \<longrightarrow> en_semimaj_ax n \<noteq> None) \<longrightarrow> semimaj_ax (Ellipsoid_init n a f) \<noteq> None)
   \<and> ((f = None \<longrightarrow> en_inv_flat n \<noteq> None) \<longrightarrow> inv_flat (Ellipsoid_init n a f) \<noteq> None)"
  by (simp add: Ellipsoid_init_def split: option.splits)

text \<open>WGS84 with one number given and the other taken from the catalog.\<close>

theorem Ellipsoid_init_fills_witness:
  "semimaj_ax (Ellipsoid_init ex_ellps_WGS84 None (Some ''298.0'')) = Some ''6378137.0''
   \<and> inv_flat (Ellipsoid_init ex_ellps_WGS84 None (Some ''298.0'')) = Some ''298.0''
   \<and> semimaj_ax (Ellipsoid_init ex_ellps_WGS84 None (Some ''298.0'')) \<noteq> None
   \<and> inv_flat (Ellipsoid_init ex_ellps_WGS84 None (Some ''298.0'')) \<noteq> None"
  using Ellipsoid_init_fills [of ex_ellps_WGS84 None "Some ''298.0''"]
  by (simp add: ex_ellps_WGS84_def)

subsection \<open>Renders as calls\<close>

text \<open>
  When every outside method returns its text and leaves the world alone, the calls are
  the render functions: each gives the function's result and leaves the world alone.
\<close>

lemma py_then_return: "py_then (py_return x) f = f x"
  by (simp add: py_then_def py_return_def)

lemma call_each_return: "call_each (map (\<lambda>p. py_return (h p)) ps) = py_return (map h ps)"
  by (induction ps) (simp_all add: py_then_return)

lemma call_each_obj_of_parameter:
  "call_each (map (obj_to_proj4 \<circ> obj_of_parameter) ps) = py_return (map par_to_proj4 ps)"
  "call_each (map (obj_to_ogc_wkt \<circ> obj_of_parameter) ps) = py_return (map par_to_ogc_wkt ps)"
  "call_each (map (obj_to_esri_wkt \<circ> obj_of_parameter) ps) = py_return (map par_to_esri_wkt ps)"
  using call_each_return [of par_to_proj4 ps] call_each_return [of par_to_ogc_wkt ps]
    call_each_return [of par_to_esri_wkt ps]
  by (simp_all add: obj_of_parameter_def comp_def)

lemma call_Datum_obj_of:
  "call_Datum_to_proj4 (obj_of_Datum d) = py_return (Datum_to_proj4 d)"
  "call_Datum_to_ogc_wkt (obj_of_Datum d) = py_return (Datum_to_ogc_wkt d)"
  "call_Datum_to_esri_wkt (obj_of_Datum d) = py_return (Datum_to_esri_wkt d)"
  by (simp_all add: call_Datum_to_proj4_def call_Datum_to_ogc_wkt_def call_Datum_to_esri_wkt_def
      Datum_to_proj4_def Datum_to_ogc_wkt_def Datum_to_esri_wkt_def obj_of_Datum_def
      obj_of_parameter_def py_then_return split: option.splits)

lemma call_GeogCS_obj_of:
  "call_GeogCS_to_proj4 (obj_of_GeogCS g) = py_return (GeogCS_to_proj4 g)"
  "call_GeogCS_to_ogc_wkt (obj_of_GeogCS g) = py_return (GeogCS_to_ogc_wkt g)"
  "call_GeogCS_to_esri_wkt (obj_of_GeogCS g) = py_return (GeogCS_to_esri_wkt g)"
  by (simp_all add: call_GeogCS_to_proj4_def call_GeogCS_to_ogc_wkt_def
      call_GeogCS_to_esri_wkt_def GeogCS_to_proj4_def GeogCS_to_ogc_wkt_def
      GeogCS_to_esri_wkt_def obj_of_GeogCS_def call_Datum_obj_of obj_of_parameter_def
      py_then_return)

lemma call_ProjCS_obj_of:
  "call_ProjCS_to_proj4 (obj_of_ProjCS c) = py_return (ProjCS_to_proj4 c)"
  "call_ProjCS_to_ogc_wkt (obj_of_ProjCS c) = py_return (ProjCS_to_ogc_wkt c)"
  "call_ProjCS_to_esri_wkt (obj_of_ProjCS c) = py_return (ProjCS_to_esri_wkt c)"
  by (simp_all add: call_ProjCS_to_proj4_def call_ProjCS_to_ogc_wkt_def
      call_ProjCS_to_esri_wkt_def ProjCS_to_proj4_def ProjCS_to_ogc_wkt_def
      ProjCS_to_esri_wkt_def obj_of_ProjCS_def call_GeogCS_obj_of call_each_obj_of_parameter
      py_then_return)
    (simp_all add: obj_of_parameter_def py_then_return)

lemma call_CRS_obj_of:
  "call_CRS_to_proj4 (obj_of_CRS c) w = (Inr (CRS_to_proj4 c), w)"
  "call_CRS_to_ogc_wkt (obj_of_CRS c) w = (CRS_to_ogc_wkt c, w)"
  "call_CRS_to_esri_wkt (obj_of_CRS c) w = (CRS_to_esri_wkt c, w)"
  by (simp_all add: call_CRS_to_proj4_def call_CRS_to_ogc_wkt_def call_CRS_to_esri_wkt_def
      CRS_to_proj4_def CRS_to_ogc_wkt_def CRS_to_esri_wkt_def obj_of_CRS_def obj_of_root_def
      call_ProjCS_obj_of call_GeogCS_obj_of py_then_def py_return_def split: root.splits)

subsection \<open>Steady calls\<close>

lemma steady_return: "steady (py_return x)"
  by (simp add: steady_def py_return_def)

lemma steady_then:
  assumes "steady m" and "\<And>x. steady (f x)"
  shows "steady (py_then m f)"
proof -
  have "fst (py_then m f w) = fst (py_then m f w')" for w w'
  proof -
    obtain r b where mw: "m w = (r, b)"
      by (cases "m w")
    obtain r' b' where mw': "m w' = (r', b')"
      by (cases "m w'")
    from assms(1) have "fst (m w') = fst (m w)"
      by (simp add: steady_def)
    with mw mw' have r: "r' = r"
      by simp
    show ?thesis
    proof (cases r)
      case (Inl e)
      with mw mw' r show ?thesis
        by (simp add: py_then_def)
    next
      case (Inr x)
      from assms(2) [of x] have "fst (f x b) = fst (f x b')"
        by (simp add: steady_def)
      with Inr mw mw' r show ?thesis
        by (simp add: py_then_def)
    qed
  qed
  then show ?thesis
    by (simp add: steady_def)
qed

lemma steady_call_each: "list_all steady ms \<Longrightarrow> steady (call_each ms)"
  by (induction ms) (simp_all add: steady_return steady_then)

lemma steady_Datum:
  assumes "every_Datum steady d"
  shows "steady (call_Datum_to_proj4 d)" "steady (call_Datum_to_ogc_wkt d)"
    "steady (call_Datum_to_esri_wkt d)"
  using assms
  by (auto simp: every_Datum_def every_parameter_def call_Datum_to_proj4_def
      call_Datum_to_ogc_wkt_def call_Datum_to_esri_wkt_def split: option.splits
      intro!: steady_then steady_return)

lemma steady_GeogCS:
  assumes "every_GeogCS steady g"
  shows "steady (call_GeogCS_to_proj4 g)" "steady (call_GeogCS_to_ogc_wkt g)"
    "steady (call_GeogCS_to_esri_wkt g)"
  using assms
  by (auto simp: every_GeogCS_def every_parameter_def call_GeogCS_to_proj4_def
      call_GeogCS_to_ogc_wkt_def call_GeogCS_to_esri_wkt_def
      intro!: steady_then steady_return steady_Datum)

lemma steady_params:
  assumes "list_all (every_parameter steady) ps"
  shows "list_all steady (map obj_to_proj4 ps)" "list_all steady (map obj_to_ogc_wkt ps)"
    "list_all steady (map obj_to_esri_wkt ps)"
  using assms by (induction ps) (simp_all add: every_parameter_def)

lemma steady_ProjCS:
  assumes "every_ProjCS steady c"
  shows "steady (call_ProjCS_to_proj4 c)" "steady (call_ProjCS_to_ogc_wkt c)"
    "steady (call_ProjCS_to_esri_wkt c)"
  using assms
  by (auto simp: every_ProjCS_def every_parameter_def call_ProjCS_to_proj4_def
      call_ProjCS_to_ogc_wkt_def call_ProjCS_to_esri_wkt_def
      intro!: steady_then steady_return steady_GeogCS steady_call_each steady_params)

lemma steady_CRS:
  assumes "every_CRS steady c"
  shows "steady (call_CRS_to_proj4 c)" "steady (call_CRS_to_ogc_wkt c)"
    "steady (call_CRS_to_esri_wkt c)"
  using assms
  by (auto simp: every_CRS_def call_CRS_to_proj4_def call_CRS_to_ogc_wkt_def
      call_CRS_to_esri_wkt_def split: root_obj.splits
      intro!: steady_then steady_return steady_ProjCS steady_GeogCS)

subsection \<open>Calls that return\<close>

lemma returns_return: "returns (py_return x)"
  by (simp add: returns_def py_return_def)

lemma returns_then:
  assumes "returns m" and "\<And>x. returns (f x)"
  shows "returns (py_then m f)"
proof -
  have "\<exists>y. fst (py_then m f w) = Inr y" for w
  proof -
    from assms(1) obtain x where x: "fst (m w) = Inr x"
      by (auto simp: returns_def)
    from assms(2) [of x] obtain y where "fst (f x (snd (m w))) = Inr y"
      by (auto simp: returns_def)
    with x show ?thesis
      by (cases "m w") (simp add: py_then_def)
  qed
  then show ?thesis
    by (simp add: returns_def)
qed

lemma returns_call_each: "list_all returns ms \<Longrightarrow> returns (call_each ms)"
  by (induction ms) (simp_all add: returns_return returns_then)

lemma returns_Datum:
  assumes "every_Datum returns d"
  shows "returns (call_Datum_to_proj4 d)" "returns (call_Datum_to_ogc_wkt d)"
    "returns (call_Datum_to_esri_wkt d)"
  using assms
  by (auto simp: every_Datum_def every_parameter_def call_Datum_to_proj4_def
      call_Datum_to_ogc_wkt_def call_Datum_to_esri_wkt_def split: option.splits
      intro!: returns_then returns_return)

lemma returns_GeogCS:
  assumes "every_GeogCS returns g"
  shows "returns (call_GeogCS_to_proj4 g)" "returns (call_GeogCS_to_ogc_wkt g)"
    "returns (call_GeogCS_to_esri_wkt g)"
  using assms
  by (auto simp: every_GeogCS_def every_parameter_def call_GeogCS_to_proj4_def
      call_GeogCS_to_ogc_wkt_def call_GeogCS_to_esri_wkt_def
      intro!: returns_then returns_return returns_Datum)

lemma returns_params:
  assumes "list_all (every_parameter returns) ps"
  shows "list_all returns (map obj_to_proj4 ps)" "list_all returns (map obj_to_ogc_wkt ps)"
    "list_all returns (map obj_to_esri_wkt ps)"
  using assms by (induction ps) (simp_all add: every_parameter_def)

lemma returns_ProjCS:
  assumes "every_ProjCS returns c"
  shows "returns (call_ProjCS_to_proj4 c)" "returns (call_ProjCS_to_ogc_wkt c)"
    "returns (call_ProjCS_to_esri_wkt c)"
  using assms
  by (auto simp: every_ProjCS_def every_parameter_def call_ProjCS_to_proj4_def
      call_ProjCS_to_ogc_wkt_def call_ProjCS_to_esri_wkt_def
      intro!: returns_then returns_return returns_GeogCS returns_call_each returns_params)

lemma returns_CRS:
  assumes "every_CRS returns c"
  shows "returns (call_CRS_to_proj4 c)" "returns (call_CRS_to_ogc_wkt c)"
    "returns (call_CRS_to_esri_wkt c)"
  using assms
  by (auto simp: every_CRS_def call_CRS_to_proj4_def call_CRS_to_ogc_wkt_def
      call_CRS_to_esri_wkt_def split: root_obj.splits
      intro!: returns_then returns_return returns_ProjCS returns_GeogCS)

subsection \<open>Repeated renders\<close>

text \<open>
  Claim C9. Take a CRS tree in which every outside render method is steady: what it
  raises or returns does not depend on the state of the program, though it may change
  that state. Then each of the three renders of the CRS does the same in every world
  \<open>w\<close> and \<open>w'\<close>; in particular a second call, made in the world the first call left,
  gives what the first call gave. When moreover every outside method returns, each
  render returns, so the two calls return the same string.
\<close>

theorem CRS_renders_deterministic:
  assumes "every_CRS steady c"
  shows "fst (call_CRS_to_proj4 c w') = fst (call_CRS_to_proj4 c w)
    \<and> fst (call_CRS_to_ogc_wkt c w') = fst (call_CRS_to_ogc_wkt c w)
    \<and> fst (call_CRS_to_esri_wkt c w') = fst (call_CRS_to_esri_wkt c w)
    \<and> fst (call_CRS_to_proj4 c (snd (call_CRS_to_proj4 c w))) = fst (call_CRS_to_proj4 c w)
    \<and> fst (call_CRS_to_ogc_wkt c (snd (call_CRS_to_ogc_wkt c w))) = fst (call_CRS_to_ogc_wkt c w)
    \<and> fst (call_CRS_to_esri_wkt c (snd (call_CRS_to_esri_wkt c w)))
        = fst (call_CRS_to_esri_wkt c w)
    \<and> (every_CRS returns c \<longrightarrow>
        (\<exists>r. fst (call_CRS_to_proj4 c w) = Inr r
              \<and> fst (call_CRS_to_proj4 c (snd (call_CRS_to_proj4 c w))) = Inr r)
        \<and> (\<exists>s. fst (call_CRS_to_ogc_wkt c w) = Inr s
              \<and> fst (call_CRS_to_ogc_wkt c (snd (call_CRS_to_ogc_wkt c w))) = Inr s)
        \<and> (\<exists>s. fst (call_CRS_to_esri_wkt c w) = Inr s
              \<and> fst (call_CRS_to_esri_wkt c (snd (call_CRS_to_esri_wkt c w))) = Inr s))"
proof -
  have any: "fst (call_CRS_to_proj4 c u) = fst (call_CRS_to_proj4 c v)"
    "fst (call_CRS_to_ogc_wkt c u) = fst (call_CRS_to_ogc_wkt c v)"
    "fst (call_CRS_to_esri_wkt c u) = fst (call_CRS_to_esri_wkt c v)" for u v
    using steady_CRS [OF assms] by (simp_all add: steady_def)
  have ret: "\<exists>r. fst (call_CRS_to_proj4 c w) = Inr r"
    "\<exists>s. fst (call_CRS_to_ogc_wkt c w) = Inr s"
    "\<exists>s. fst (call_CRS_to_esri_wkt c w) = Inr s" if "every_CRS returns c"
    using returns_CRS [OF that] by (simp_all add: returns_def)
  show ?thesis
    using any [of w' w] any [of "snd (call_CRS_to_proj4 c w)" w]
      any [of "snd (call_CRS_to_ogc_wkt c w)" w] any [of "snd (call_CRS_to_esri_wkt c w)" w] ret
    by simp
qed

text \<open>
  The example tree with counting parameter objects: the first PROJ render makes seven
  outside calls, so the second starts in another world, and gives the same string.
\<close>

lemma steady_counting: "steady (counting s)" "returns (counting s)"
  by (simp_all add: steady_def returns_def counting_def)

lemma every_counting_parameter:
  "every_parameter steady (counting_parameter p)" "every_parameter returns (counting_parameter p)"
  by (simp_all add: every_parameter_def counting_parameter_def steady_counting)

lemma every_ex_crs_obj: "every_CRS steady ex_crs_obj" "every_CRS returns ex_crs_obj"
  by (simp_all add: every_CRS_def every_ProjCS_def every_GeogCS_def every_Datum_def
      ex_crs_obj_def ex_geogcs_obj_def every_counting_parameter)

lemma ex_crs_obj_first_call:
  "call_CRS_to_proj4 ex_crs_obj 0 =
     (Inr (Some ''+proj=tmerc +ellps=WGS84 +a=6378137.0 +f=298.257223563 +towgs84=0,0,0 +pm=0 +to_meter=0.0174532925199433 +lon_0=9 +x_0=500000 +y_0=0 +to_meter=1.0 +axis=enu +no_defs''), 7)"
  by (simp add: call_CRS_to_proj4_def call_ProjCS_to_proj4_def call_GeogCS_to_proj4_def
      call_Datum_to_proj4_def ex_crs_obj_def ex_geogcs_obj_def counting_parameter_def counting_def
      py_then_def py_return_def ex_projection_def Projection_init_def Projection_to_proj4_def
      ex_ellipsoid_def Ellipsoid_init_def ex_ellps_WGS84_def Ellipsoid_to_proj4_def
      ex_shift_def ex_prime_mer_def ex_angunit_def ex_unit_def ex_parA_def ex_parB_def
      ex_parC_def ex_dirs_def py_str_def py_truthy_def)

theorem CRS_renders_deterministic_witness:
  "every_CRS steady ex_crs_obj \<and> every_CRS returns ex_crs_obj
   \<and> snd (call_CRS_to_proj4 ex_crs_obj 0) = 7
   \<and> fst (call_CRS_to_proj4 ex_crs_obj 7) = fst (call_CRS_to_proj4 ex_crs_obj 0)
   \<and> fst (call_CRS_to_proj4 ex_crs_obj 0) =
       Inr (Some ''+proj=tmerc +ellps=WGS84 +a=6378137.0 +f=298.257223563 +towgs84=0,0,0 +pm=0 +to_meter=0.0174532925199433 +lon_0=9 +x_0=500000 +y_0=0 +to_meter=1.0 +axis=enu +no_defs'')
   \<and> fst (call_CRS_to_ogc_wkt ex_crs_obj (snd (call_CRS_to_ogc_wkt ex_crs_obj 0)))
       = fst (call_CRS_to_ogc_wkt ex_crs_obj 0)
   \<and> fst (call_CRS_to_esri_wkt ex_crs_obj (snd (call_CRS_to_esri_wkt ex_crs_obj 0)))
       = fst (call_CRS_to_esri_wkt ex_crs_obj 0)
   \<and> (\<exists>s. fst (call_CRS_to_ogc_wkt ex_crs_obj 0) = Inr s
          \<and> fst (call_CRS_to_ogc_wkt ex_crs_obj (snd (call_CRS_to_ogc_wkt ex_crs_obj 0))) = Inr s)
   \<and> (\<exists>s. fst (call_CRS_to_esri_wkt ex_crs_obj 0) = Inr s
          \<and> fst (call_CRS_to_esri_wkt ex_crs_obj (snd (call_CRS_to_esri_wkt ex_crs_obj 0))) = Inr s)"
proof -
  note th = CRS_renders_deterministic [OF every_ex_crs_obj(1), of 7 0]
  from th every_ex_crs_obj(2)
  have d: "\<exists>s. fst (call_CRS_to_ogc_wkt ex_crs_obj 0) = Inr s
      \<and> fst (call_CRS_to_ogc_wkt ex_crs_obj (snd (call_CRS_to_ogc_wkt ex_crs_obj 0))) = Inr s"
    by blast
  from th every_ex_crs_obj(2)
  have e: "\<exists>s. fst (call_CRS_to_esri_wkt ex_crs_obj 0) = Inr s
      \<and> fst (call_CRS_to_esri_wkt ex_crs_obj (snd (call_CRS_to_esri_wkt ex_crs_obj 0))) = Inr s"
    by blast
  from th have a: "fst (call_CRS_to_proj4 ex_crs_obj 7) = fst (call_CRS_to_proj4 ex_crs_obj 0)"
    by blast
  from th have b: "fst (call_CRS_to_ogc_wkt ex_crs_obj (snd (call_CRS_to_ogc_wkt ex_crs_obj 0)))
      = fst (call_CRS_to_ogc_wkt ex_crs_obj 0)"
    by blast
  from th have c: "fst (call_CRS_to_esri_wkt ex_crs_obj (snd (call_CRS_to_esri_wkt ex_crs_obj 0)))
      = fst (call_CRS_to_esri_wkt ex_crs_obj 0)"
    by blast
  show ?thesis
    using a b c d e every_ex_crs_obj by (simp add: ex_crs_obj_first_call)
qed

text \<open>
  Without steadiness the renders need not agree: with the prime meridian whose render
  depends on the world, the second PROJ render differs from the first.
\<close>

lemma unsteady_renders_differ:
  "fst (call_CRS_to_proj4 ex_unsteady_crs_obj (snd (call_CRS_to_proj4 ex_unsteady_crs_obj 0)))
     \<noteq> fst (call_CRS_to_proj4 ex_unsteady_crs_obj 0)"
  by (simp add: call_CRS_to_proj4_def call_GeogCS_to_proj4_def call_Datum_to_proj4_def
      ex_unsteady_crs_obj_def ex_geogcs_obj_def ex_unsteady_prime_mer_def counting_parameter_def
      counting_def py_then_def py_return_def ex_datum_WGS84_def py_truthy_def)

end
